theory Spec2Isabelle
  imports Complex_Main "HOL-Library.Product_Lexorder"
begin

section \<open>Data model of \<^verbatim>\<open>app.py\<close>\<close>

text \<open>
  A cell of a pandas \<^verbatim>\<open>float64\<close> column: \<open>NaN\<close> is the missing marker, \<open>Val v\<close> a
  present finite number, held by its exact value (comparing two float64 numbers is
  comparing their values).  Arithmetic on the cells is the numeric library's and is kept
  apart, with the summary statistics.  A cell that reads as an infinity is not represented.
\<close>

datatype float64 = NaN | Val rat

text \<open>
  A parsed \<^verbatim>\<open>Date of Admission\<close> is (year, month, day); its monthly period
  (\<^verbatim>\<open>.dt.to_period('M')\<close>) is (year, month), ordered chronologically, which is the
  lexicographic order of the pair.  A missing date (\<^verbatim>\<open>NaT\<close>) is \<open>None\<close>.
\<close>

type_synonym timestamp = "nat \<times> nat \<times> nat"
type_synonym period = "nat \<times> nat"

text \<open>
  One row of the module-level table \<^verbatim>\<open>data\<close>.  A text column holds a string or the
  missing marker (\<^verbatim>\<open>read_csv\<close> loads an empty field as NaN), written \<open>None\<close>.
\<close>

record row =
  Age :: int
  Gender :: "string option"
  Medical_Condition :: "string option"
  Insurance_Provider :: "string option"
  Billing_Amount :: float64
  Date_of_Admission :: "timestamp option"
  YearMonth :: "period option"

type_synonym dataframe = "row list"

text \<open>One row of the file as \<^verbatim>\<open>read_csv\<close> hands it over, the two coerced columns still text.\<close>

record csv_row =
  csv_Age :: int
  csv_Gender :: "string option"
  csv_Medical_Condition :: "string option"
  csv_Insurance_Provider :: "string option"
  csv_Billing_Amount :: string
  csv_Date_of_Admission :: string

section \<open>Loading: \<^verbatim>\<open>load_data\<close>\<close>

text \<open>
  \<^verbatim>\<open>pd.to_numeric(col, errors=...)\<close> and \<^verbatim>\<open>pd.to_datetime(col, errors=...)\<close> work on a
  whole column, and what the library reads in a cell may depend on the column the cell is
  in: \<^verbatim>\<open>pd.to_datetime\<close> settles on one date format for the column, from its first
  cell, and reads every cell in that format.  The reader of a cell is therefore a parameter
  that is given the column as well as the cell (\<open>None\<close>: the library reads nothing in
  the cell).  With \<^verbatim>\<open>errors='raise'\<close> a cell that is not read raises; with
  \<^verbatim>\<open>errors='coerce'\<close> it becomes the missing marker.
\<close>

datatype errors_arg = Raise | Coerce

datatype exn = ValueError | OverflowError

fun numeric_cells :: "(string \<Rightarrow> rat option) \<Rightarrow> errors_arg \<Rightarrow> string list \<Rightarrow> exn + float64 list" where
  "numeric_cells read errors [] = Inr []"
| "numeric_cells read errors (s # ss) =
     (case read s of
        Some v \<Rightarrow>
          (case numeric_cells read errors ss of Inl e \<Rightarrow> Inl e | Inr vs \<Rightarrow> Inr (Val v # vs))
      | None \<Rightarrow>
          (case errors of
             Raise \<Rightarrow> Inl ValueError
           | Coerce \<Rightarrow>
               (case numeric_cells read errors ss of Inl e \<Rightarrow> Inl e | Inr vs \<Rightarrow> Inr (NaN # vs))))"

definition to_numeric ::
    "(string list \<Rightarrow> string \<Rightarrow> rat option) \<Rightarrow> errors_arg \<Rightarrow> string list \<Rightarrow> exn + float64 list" where
  "to_numeric number_of errors col = numeric_cells (number_of col) errors col"

fun datetime_cells ::
    "(string \<Rightarrow> timestamp option) \<Rightarrow> errors_arg \<Rightarrow> string list \<Rightarrow> exn + timestamp option list" where
  "datetime_cells read errors [] = Inr []"
| "datetime_cells read errors (s # ss) =
     (case read s of
        Some d \<Rightarrow>
          (case datetime_cells read errors ss of Inl e \<Rightarrow> Inl e | Inr ds \<Rightarrow> Inr (Some d # ds))
      | None \<Rightarrow>
          (case errors of
             Raise \<Rightarrow> Inl ValueError
           | Coerce \<Rightarrow>
               (case datetime_cells read errors ss of Inl e \<Rightarrow> Inl e | Inr ds \<Rightarrow> Inr (None # ds))))"

definition to_datetime ::
    "(string list \<Rightarrow> string \<Rightarrow> timestamp option) \<Rightarrow> errors_arg \<Rightarrow> string list \<Rightarrow>
     exn + timestamp option list" where
  "to_datetime datetime_of errors col = datetime_cells (datetime_of col) errors col"

text \<open>\<^verbatim>\<open>.dt.to_period('M')\<close> on one cell: the month of the date, missing when the date is.\<close>

definition to_period_M :: "timestamp option \<Rightarrow> period option" where
  "to_period_M d = (case d of None \<Rightarrow> None | Some (y, m, _) \<Rightarrow> Some (y, m))"

text \<open>Putting the three new columns beside the columns that are kept as they are.\<close>

definition assemble :: "csv_row \<Rightarrow> float64 \<Rightarrow> timestamp option \<Rightarrow> period option \<Rightarrow> row" where
  "assemble c b d p =
     \<lparr>Age = csv_Age c, Gender = csv_Gender c, Medical_Condition = csv_Medical_Condition c,
      Insurance_Provider = csv_Insurance_Provider c, Billing_Amount = b,
      Date_of_Admission = d, YearMonth = p\<rparr>"

definition load_data ::
    "(string list \<Rightarrow> string \<Rightarrow> rat option) \<Rightarrow> (string list \<Rightarrow> string \<Rightarrow> timestamp option) \<Rightarrow>
     csv_row list \<Rightarrow> exn + dataframe" where
  "load_data number_of datetime_of csv =
     (case to_numeric number_of Coerce (map csv_Billing_Amount csv) of
        Inl e \<Rightarrow> Inl e
      | Inr billing \<Rightarrow>
          (case to_datetime datetime_of Coerce (map csv_Date_of_Admission csv) of
             Inl e \<Rightarrow> Inl e
           | Inr dates \<Rightarrow>
               Inr (map (\<lambda>(c, b, d). assemble c b d (to_period_M d)) (zip csv (zip billing dates)))))"

section \<open>Summary statistics\<close>

text \<open>
  A float that the numeric library computes: NaN, an infinity (\<open>True\<close> for the positive one)
  or a finite number.
\<close>

datatype pyfloat = Py_nan | Py_inf bool | Py_num rat

text \<open>
  The float64 arithmetic is the library's and is not in the repository: how an array is
  summed (in which order, with which rounding), the division of the sum by the count, the
  median and the interpolated quantile of an array are parameters, collected in one record.
\<close>

record numpy =
  np_sum :: "rat list \<Rightarrow> pyfloat"
  np_divide :: "pyfloat \<Rightarrow> nat \<Rightarrow> pyfloat"
  np_median :: "rat list \<Rightarrow> pyfloat"
  np_quantile :: "rat list \<Rightarrow> rat \<Rightarrow> pyfloat"

text \<open>The cells that are present.\<close>

fun dropna :: "float64 list \<Rightarrow> rat list" where
  "dropna [] = []"
| "dropna (NaN # xs) = dropna xs"
| "dropna (Val v # xs) = v # dropna xs"

text \<open>
  \<^verbatim>\<open>Series.mean()\<close> skips missing cells: it puts 0 in their place, sums the column,
  and divides the sum by the number of cells that are present; with no cell present the
  mean is NaN.
\<close>

definition fillna0 :: "float64 \<Rightarrow> rat" where
  "fillna0 c = (case c of NaN \<Rightarrow> 0 | Val v \<Rightarrow> v)"

definition mean :: "numpy \<Rightarrow> float64 list \<Rightarrow> pyfloat" where
  "mean np xs =
     (let count = length (filter (\<lambda>c. c \<noteq> NaN) xs);
          the_sum = np_sum np (map fillna0 xs)
      in if 0 < count then np_divide np the_sum count else Py_nan)"

definition num_records :: "dataframe \<Rightarrow> nat" where
  "num_records data = length data"

definition avg_billing_amount :: "numpy \<Rightarrow> dataframe \<Rightarrow> pyfloat" where
  "avg_billing_amount np data = mean np (map Billing_Amount data)"

section \<open>Chart specifications\<close>

text \<open>
  A DataFrame object is the table, the frame that \<^verbatim>\<open>groupby('YearMonth').size()\<close> with
  \<^verbatim>\<open>reset_index(name='Count')\<close> builds (a period and its count per line), or that
  frame once its YearMonth column holds strings.
\<close>

datatype frame = Table dataframe | Counts "(period \<times> nat) list" | Trend "(string \<times> nat) list"

text \<open>
  A figure is what a \<^verbatim>\<open>plotly.express\<close> call is given: the kind of chart, the content
  of the frame and the keyword arguments, in the order of the call.  \<open>Empty_Dict\<close> is the
  \<^verbatim>\<open>{}\<close> that \<^verbatim>\<open>update_distribution\<close> returns for an empty frame.
\<close>

datatype kwarg = Text string | Number nat | Texts "string list"

datatype chart = histogram | pie | bar | line

datatype figure = Empty_Dict | Figure chart frame "(string \<times> kwarg) list"

fun chart_of :: "figure \<Rightarrow> chart option" where
  "chart_of Empty_Dict = None"
| "chart_of (Figure c f kw) = Some c"

fun frame_of :: "figure \<Rightarrow> frame option" where
  "frame_of Empty_Dict = None"
| "frame_of (Figure c f kw) = Some f"

section \<open>The layout\<close>

text \<open>
  The statistics lines, \<^verbatim>\<open>f"Total Records: {num_records}"\<close> and
  \<^verbatim>\<open>f"Average Biling Amount: {avg_billing_amount:.2f}"\<close>.  Python formats NaN as
  \<^verbatim>\<open>nan\<close>, an infinity as \<^verbatim>\<open>inf\<close>, and a number by rounding its exact value to the
  nearest hundredth, a tie to the even one, with a minus sign when the number is negative.
\<close>

definition digit :: "nat \<Rightarrow> char" where
  "digit n = ''0123456789'' ! (n mod 10)"

fun digits :: "nat \<Rightarrow> string" where
  "digits n = (if n < 10 then [digit n] else digits (n div 10) @ [digit n])"

declare digits.simps [simp del]

definition round_half_even :: "rat \<Rightarrow> int" where
  "round_half_even x =
     (let f = \<lfloor>x\<rfloor>; d = x - of_int f
      in if d < 1 / 2 then f else if 1 / 2 < d then f + 1 else if even f then f else f + 1)"

definition fixed2 :: "rat \<Rightarrow> string" where
  "fixed2 v =
     (let h = nat (round_half_even (\<bar>v\<bar> * 100))
      in (if v < 0 then ''-'' else []) @ digits (h div 100) @ ''.'' @ [digit (h div 10), digit h])"

definition format_2f :: "pyfloat \<Rightarrow> string" where
  "format_2f x =
     (case x of
        Py_nan \<Rightarrow> ''nan''
      | Py_inf positive \<Rightarrow> (if positive then ''inf'' else ''-inf'')
      | Py_num v \<Rightarrow> fixed2 v)"

definition records_text :: "dataframe \<Rightarrow> string" where
  "records_text data = ''Total Records: '' @ digits (num_records data)"

definition billing_text :: "numpy \<Rightarrow> dataframe \<Rightarrow> string" where
  "billing_text np data = ''Average Biling Amount: '' @ format_2f (avg_billing_amount np data)"

text \<open>
  The options of a dropdown, \<^verbatim>\<open>[{"label": g, "value": g} for g in data[...].unique()]\<close>:
  the values of the column in the order in which they first occur.
\<close>

definition unique :: "'a list \<Rightarrow> 'a list" where
  "unique xs = rev (remdups (rev xs))"

definition options :: "string option list \<Rightarrow> (string option \<times> string option) list" where
  "options col = map (\<lambda>g. (g, g)) (unique col)"

text \<open>
  The slider: \<^verbatim>\<open>min()\<close>, \<^verbatim>\<open>max()\<close>, \<^verbatim>\<open>median()\<close> and
  \<^verbatim>\<open>quantile([0, 0.25, 0.5, 0.75, 1])\<close> of the Billing Amount skip missing cells and are
  NaN when no cell is present.
\<close>

definition series_min :: "float64 list \<Rightarrow> pyfloat" where
  "series_min xs = (let vs = dropna xs in if vs = [] then Py_nan else Py_num (Min (set vs)))"

definition series_max :: "float64 list \<Rightarrow> pyfloat" where
  "series_max xs = (let vs = dropna xs in if vs = [] then Py_nan else Py_num (Max (set vs)))"

definition median :: "numpy \<Rightarrow> float64 list \<Rightarrow> pyfloat" where
  "median np xs = (let vs = dropna xs in if vs = [] then Py_nan else np_median np vs)"

definition quantile :: "numpy \<Rightarrow> float64 list \<Rightarrow> rat list \<Rightarrow> pyfloat list" where
  "quantile np xs qs =
     (let vs = dropna xs in map (\<lambda>q. if vs = [] then Py_nan else np_quantile np vs q) qs)"

text \<open>
  \<^verbatim>\<open>int(value)\<close> cuts the fraction off; on NaN it raises ValueError and on an infinity
  OverflowError.
\<close>

definition int_py :: "pyfloat \<Rightarrow> exn + int" where
  "int_py x =
     (case x of
        Py_nan \<Rightarrow> Inl ValueError
      | Py_inf positive \<Rightarrow> Inl OverflowError
      | Py_num v \<Rightarrow> Inr (if 0 \<le> v then \<lfloor>v\<rfloor> else \<lceil>v\<rceil>))"

text \<open>\<^verbatim>\<open>f"${int(value):,}"\<close>: the digits in groups of three, after a dollar sign.\<close>

fun commas :: "string \<Rightarrow> string" where
  "commas ds =
     (if length ds \<le> 3 then ds
      else commas (take (length ds - 3) ds) @ '','' @ drop (length ds - 3) ds)"

declare commas.simps [simp del]

definition dollars :: "int \<Rightarrow> string" where
  "dollars i = ''$'' @ (if i < 0 then ''-'' else []) @ commas (digits (nat \<bar>i\<bar>))"

text \<open>Storing under a key of a Python dict: a key that is there keeps its place.\<close>

fun dict_set :: "('k \<times> 'v) list \<Rightarrow> 'k \<Rightarrow> 'v \<Rightarrow> ('k \<times> 'v) list" where
  "dict_set [] k v = [(k, v)]"
| "dict_set ((k', v') # kvs) k v =
     (if k' = k then (k, v) # kvs else (k', v') # dict_set kvs k v)"

text \<open>
  \<^verbatim>\<open>{int(value): f"${int(value):,}" for value in ...}\<close>, value by value; the first
  \<^verbatim>\<open>int\<close> that raises ends it.
\<close>

fun marks_of :: "(int \<times> string) list \<Rightarrow> pyfloat list \<Rightarrow> exn + (int \<times> string) list" where
  "marks_of marks [] = Inr marks"
| "marks_of marks (value # values) =
     (case int_py value of
        Inl e \<Rightarrow> Inl e
      | Inr k \<Rightarrow> marks_of (dict_set marks k (dollars k)) values)"

record slider =
  kw_min :: pyfloat
  kw_max :: pyfloat
  kw_value :: pyfloat
  kw_marks :: "(int \<times> string) list"
  kw_step :: nat

text \<open>
  What \<^verbatim>\<open>app.layout = dbc.Container([...])\<close> computes from the table, in the order of
  the expression: the two statistics lines, the options of the gender dropdown, the
  slider, the options of the condition dropdown.  The whole expression raises when a part
  does, and only the marks of the slider can.
\<close>

record layout =
  records_line :: string
  billing_line :: string
  gender_options :: "(string option \<times> string option) list"
  billing_slider :: slider
  condition_options :: "(string option \<times> string option) list"

definition app_layout :: "numpy \<Rightarrow> dataframe \<Rightarrow> exn + layout" where
  "app_layout np data =
     (let billing = map Billing_Amount data
      in case marks_of [] (quantile np billing [0, 1 / 4, 1 / 2, 3 / 4, 1]) of
           Inl e \<Rightarrow> Inl e
         | Inr marks \<Rightarrow>
             Inr \<lparr>records_line = records_text data,
                  billing_line = billing_text np data,
                  gender_options = options (map Gender data),
                  billing_slider =
                    \<lparr>kw_min = series_min billing, kw_max = series_max billing,
                     kw_value = median np billing, kw_marks = marks,
                     kw_step = 100\<rparr>,
                  condition_options = options (map Medical_Condition data)\<rparr>)"

section \<open>Row selections\<close>

text \<open>Python's truth value of a dropdown value: \<^verbatim>\<open>None\<close> and the empty string are false.\<close>

definition truthy :: "string option \<Rightarrow> bool" where
  "truthy v = (case v of None \<Rightarrow> False | Some s \<Rightarrow> s \<noteq> [])"

text \<open>
  The rows of \<^verbatim>\<open>df[df['Gender'] == selected_gender] if selected_gender else df\<close>.
  A missing Gender cell equals no selection.
\<close>

definition filter_gender :: "dataframe \<Rightarrow> string option \<Rightarrow> dataframe" where
  "filter_gender df selected_gender =
     (if truthy selected_gender then filter (\<lambda>r. Gender r = selected_gender) df else df)"

definition filter_condition :: "dataframe \<Rightarrow> string option \<Rightarrow> dataframe" where
  "filter_condition df selected_condition =
     (if truthy selected_condition
      then filter (\<lambda>r. Medical_Condition r = selected_condition) df
      else df)"

text \<open>
  The rows of \<^verbatim>\<open>df[df['Billing Amount'] <= slider_value]\<close>: a comparison with NaN is
  false.
\<close>

definition le_slider :: "float64 \<Rightarrow> rat \<Rightarrow> bool" where
  "le_slider b slider_value = (case b of NaN \<Rightarrow> False | Val v \<Rightarrow> v \<le> slider_value)"

definition filter_billing :: "dataframe \<Rightarrow> rat \<Rightarrow> dataframe" where
  "filter_billing df slider_value = filter (\<lambda>r. le_slider (Billing_Amount r) slider_value) df"

section \<open>Grouping by month\<close>

text \<open>
  \<^verbatim>\<open>df.groupby('YearMonth').size().reset_index(name='Count')\<close>: one line per month that
  occurs, in ascending order of the month, with the number of rows of that month.  Rows
  whose month is missing belong to no group (\<^verbatim>\<open>dropna=True\<close> is the default).
\<close>

definition groupby_YearMonth_size :: "dataframe \<Rightarrow> (period \<times> nat) list" where
  "groupby_YearMonth_size df =
     map (\<lambda>k. (k, length (filter (\<lambda>r. YearMonth r = Some k) df)))
       (sort (remdups (List.map_filter YearMonth df)))"

text \<open>
  \<^verbatim>\<open>.astype(str)\<close> on a monthly period: \<^verbatim>\<open>2024-03\<close>, the year on four digits (every
  pandas timestamp has a four-digit year) and the month on two.
\<close>

definition period_str :: "period \<Rightarrow> string" where
  "period_str p =
     (case p of (y, m) \<Rightarrow>
        [digit (y div 1000), digit (y div 100), digit (y div 10), digit y] @ ''-'' @
        [digit (m div 10), digit m])"

fun astype_str :: "frame \<Rightarrow> frame" where
  "astype_str (Counts cs) = Trend (map (\<lambda>(p, c). (period_str p, c)) cs)"
| "astype_str f = f"

section \<open>The callbacks, on the store of DataFrame objects\<close>

text \<open>
  A DataFrame is a mutable object and a Python variable holds a reference to it.  The
  store lists the objects; a reference is a position in it.  The module-level \<^verbatim>\<open>data\<close>
  is object 0.  A callback takes the store and returns its figure and the store it leaves.
\<close>

type_synonym store = "frame list"

definition data_ref :: nat where
  "data_ref = 0"

definition new :: "frame \<Rightarrow> store \<Rightarrow> nat \<times> store" where
  "new f h = (length h, h @ [f])"

text \<open>
  The rows of an object that is a table.  A callback reads rows only from \<^verbatim>\<open>data\<close> and
  from tables it has built itself; the last equation is never reached from a store whose
  object 0 is the table.
\<close>

fun table_rows :: "frame \<Rightarrow> dataframe" where
  "table_rows (Table rs) = rs"
| "table_rows f = []"

text \<open>\<^verbatim>\<open>df[mask]\<close> builds a new object with the rows of \<^verbatim>\<open>df\<close> that the mask keeps.\<close>

definition getitem :: "(row \<Rightarrow> bool) \<Rightarrow> nat \<Rightarrow> store \<Rightarrow> nat \<times> store" where
  "getitem keep df h = new (Table (filter keep (table_rows (h ! df)))) h"

text \<open>
  \<^verbatim>\<open>data[data['Gender'] == selected_gender] if selected_gender else data\<close>: the new
  object, or \<^verbatim>\<open>data\<close> itself.
\<close>

definition select_gender :: "string option \<Rightarrow> store \<Rightarrow> nat \<times> store" where
  "select_gender selected_gender h =
     (if truthy selected_gender
      then getitem (\<lambda>r. Gender r = selected_gender) data_ref h
      else (data_ref, h))"

definition update_distribution :: "string option \<Rightarrow> store \<Rightarrow> figure \<times> store" where
  "update_distribution selected_gender h =
     (let (filtered_df, h) = select_gender selected_gender h
      in if table_rows (h ! filtered_df) = [] then (Empty_Dict, h)
         else (Figure histogram (h ! filtered_df)
                 [(''x'', Text ''Age''), (''nbins'', Number 10), (''color'', Text ''Gender''),
                  (''title'', Text ''Age Distribution by Gender''),
                  (''color_discrete_sequence'', Texts [''#636efa'', ''#ef553b''])], h))"

definition update_medical_condition :: "string option \<Rightarrow> store \<Rightarrow> figure \<times> store" where
  "update_medical_condition selected_gender h =
     (let (filtered_df, h) = select_gender selected_gender h
      in (Figure pie (h ! filtered_df)
            [(''names'', Text ''Medical Condition''),
             (''title'', Text ''Medical Condition Distribution'')], h))"

text \<open>\<^verbatim>\<open>px.colors.qualitative.Set1\<close> is a constant of the plotting library: a parameter.\<close>

definition update_insurance :: "string list \<Rightarrow> string option \<Rightarrow> store \<Rightarrow> figure \<times> store" where
  "update_insurance Set1 selected_gender h =
     (let (filtered_df, h) = select_gender selected_gender h
      in (Figure bar (h ! filtered_df)
            [(''x'', Text ''Insurance Provider''), (''y'', Text ''Billing Amount''),
             (''color'', Text ''Medical Condition''), (''barmode'', Text ''group''),
             (''title'', Text ''Insurance Provider Price Comparison''),
             (''color_discrete_sequence'', Texts Set1)], h))"

definition update_billing :: "string option \<Rightarrow> rat \<Rightarrow> store \<Rightarrow> figure \<times> store" where
  "update_billing selected_gender slider_value h =
     (let (filtered_df, h) = select_gender selected_gender h;
          (filtered_df, h) = getitem (\<lambda>r. le_slider (Billing_Amount r) slider_value) filtered_df h
      in (Figure histogram (h ! filtered_df)
            [(''x'', Text ''Billing Amount''), (''nbins'', Number 10),
             (''title'', Text ''Billing Amount Distribution'')], h))"

text \<open>
  In \<^verbatim>\<open>update_admission\<close> the assignment \<^verbatim>\<open>trend_df['YearMonth'] = ...\<close> changes the
  object \<^verbatim>\<open>trend_df\<close> in place.
\<close>

definition update_admission :: "string \<Rightarrow> string option \<Rightarrow> store \<Rightarrow> figure \<times> store" where
  "update_admission chart_type selected_condition h =
     (let (filtered_df, h) =
            (if truthy selected_condition
             then getitem (\<lambda>r. Medical_Condition r = selected_condition) data_ref h
             else (data_ref, h));
          (trend_df, h) = new (Counts (groupby_YearMonth_size (table_rows (h ! filtered_df)))) h;
          h = h[trend_df := astype_str (h ! trend_df)]
      in if chart_type = ''line''
         then (Figure line (h ! trend_df)
                 [(''x'', Text ''YearMonth''), (''y'', Text ''Count''),
                  (''title'', Text ''Admission Trends Over Time'')], h)
         else (Figure bar (h ! trend_df)
                 [(''x'', Text ''YearMonth''), (''y'', Text ''Count''),
                  (''title'', Text ''Admission Trends Over Time'')], h))"

text \<open>
  What a callback returns when the store holds the loaded table and nothing else, as
  after \<^verbatim>\<open>data = load_data()\<close>.
\<close>

definition on_table :: "(store \<Rightarrow> figure \<times> store) \<Rightarrow> dataframe \<Rightarrow> figure" where
  "on_table callback data = fst (callback [Table data])"

text \<open>An invocation: the callback and the values of its controls.\<close>

datatype invocation =
    Age_distribution "string option"
  | Condition_distribution "string option"
  | Insurance_comparison "string option"
  | Billing_distribution "string option" rat
  | Admission_trends string "string option"

fun invoke :: "string list \<Rightarrow> invocation \<Rightarrow> store \<Rightarrow> figure \<times> store" where
  "invoke Set1 (Age_distribution g) h = update_distribution g h"
| "invoke Set1 (Condition_distribution g) h = update_medical_condition g h"
| "invoke Set1 (Insurance_comparison g) h = update_insurance Set1 g h"
| "invoke Set1 (Billing_distribution g v) h = update_billing g v h"
| "invoke Set1 (Admission_trends t c) h = update_admission t c h"

section \<open>Values used in the statements\<close>

text \<open>The number in a Billing Amount cell that is present (0 stands in for a missing one).\<close>

definition amount :: "row \<Rightarrow> rat" where
  "amount r = (case Billing_Amount r of NaN \<Rightarrow> 0 | Val v \<Rightarrow> v)"

text \<open>
  The table of the scenarios, a Male row billed 100 and a Female row billed 200, and a row
  whose Billing Amount and Date of Admission did not parse.
\<close>

definition male_row :: row where
  "male_row =
     \<lparr>Age = 40, Gender = Some ''Male'', Medical_Condition = Some ''Asthma'',
      Insurance_Provider = Some ''Aetna'', Billing_Amount = Val 100,
      Date_of_Admission = Some (2024, 3, 15), YearMonth = Some (2024, 3)\<rparr>"

definition female_row :: row where
  "female_row =
     \<lparr>Age = 35, Gender = Some ''Female'', Medical_Condition = Some ''Diabetes'',
      Insurance_Provider = Some ''Cigna'', Billing_Amount = Val 200,
      Date_of_Admission = Some (2023, 11, 2), YearMonth = Some (2023, 11)\<rparr>"

definition unparsed_row :: row where
  "unparsed_row =
     \<lparr>Age = 61, Gender = Some ''Female'', Medical_Condition = Some ''Asthma'',
      Insurance_Provider = Some ''Aetna'', Billing_Amount = NaN,
      Date_of_Admission = None, YearMonth = None\<rparr>"

text \<open>
  Readers of cells for running \<open>load_data\<close> on an example.  The reader of numbers knows two
  texts.  The reader of dates knows two texts in the format year-month-day and one in the
  format day/month/year, and reads a cell only in the format of the first cell of its
  column.
\<close>

definition example_number :: "string list \<Rightarrow> string \<Rightarrow> rat option" where
  "example_number col s =
     (if s = ''100'' then Some 100 else if s = ''200'' then Some 200 else None)"

definition example_format :: "string \<Rightarrow> nat option" where
  "example_format s =
     (if s = ''2024-03-15'' \<or> s = ''2023-11-02'' then Some 1
      else if s = ''15/03/2024'' then Some 2 else None)"

definition example_date :: "string list \<Rightarrow> string \<Rightarrow> timestamp option" where
  "example_date col s =
     (if col = [] \<or> example_format (hd col) \<noteq> example_format s then None
      else if s = ''2024-03-15'' \<or> s = ''15/03/2024'' then Some (2024, 3, 15)
      else if s = ''2023-11-02'' then Some (2023, 11, 2) else None)"

text \<open>
  The library's arithmetic without rounding; float64 gives these values on the small whole
  numbers of the examples.  The quantile interpolates linearly between the two nearest
  values of the sorted array.
\<close>

definition exact_median :: "rat list \<Rightarrow> rat" where
  "exact_median vs =
     (let s = sort vs; n = length s
      in if odd n then s ! (n div 2) else (s ! (n div 2 - 1) + s ! (n div 2)) / 2)"

definition exact_quantile :: "rat list \<Rightarrow> rat \<Rightarrow> rat" where
  "exact_quantile vs q =
     (let s = sort vs; pos = q * of_nat (length s - 1); i = nat \<lfloor>pos\<rfloor>
      in if i + 1 < length s then s ! i + (pos - of_int \<lfloor>pos\<rfloor>) * (s ! (i + 1) - s ! i)
         else s ! i)"

definition exact_np :: numpy where
  "exact_np =
     \<lparr>np_sum = (\<lambda>vs. Py_num (sum_list vs)),
      np_divide = (\<lambda>s n. case s of Py_num v \<Rightarrow> Py_num (v / of_nat n) | _ \<Rightarrow> s),
      np_median = (\<lambda>vs. Py_num (exact_median vs)),
      np_quantile = (\<lambda>vs q. Py_num (exact_quantile vs q))\<rparr>"

section \<open>What each callback returns on the loaded table\<close>

lemma select_gender_table:
  "select_gender g [Table d] =
     (if truthy g then (1, [Table d, Table (filter (\<lambda>r. Gender r = g) d)]) else (0, [Table d]))"
  by (simp add: select_gender_def getitem_def new_def data_ref_def)

lemma on_table_update_distribution:
  "on_table (update_distribution g) d =
     (if filter_gender d g = [] then Empty_Dict
      else Figure histogram (Table (filter_gender d g))
             [(''x'', Text ''Age''), (''nbins'', Number 10), (''color'', Text ''Gender''),
              (''title'', Text ''Age Distribution by Gender''),
              (''color_discrete_sequence'', Texts [''#636efa'', ''#ef553b''])])"
  by (simp add: on_table_def update_distribution_def select_gender_table filter_gender_def)

lemma on_table_update_medical_condition:
  "on_table (update_medical_condition g) d =
     Figure pie (Table (filter_gender d g))
       [(''names'', Text ''Medical Condition''),
        (''title'', Text ''Medical Condition Distribution'')]"
  by (simp add: on_table_def update_medical_condition_def select_gender_table filter_gender_def)

lemma on_table_update_insurance:
  "on_table (update_insurance Set1 g) d =
     Figure bar (Table (filter_gender d g))
       [(''x'', Text ''Insurance Provider''), (''y'', Text ''Billing Amount''),
        (''color'', Text ''Medical Condition''), (''barmode'', Text ''group''),
        (''title'', Text ''Insurance Provider Price Comparison''),
        (''color_discrete_sequence'', Texts Set1)]"
  by (simp add: on_table_def update_insurance_def select_gender_table filter_gender_def)

lemma on_table_update_billing:
  "on_table (update_billing g v) d =
     Figure histogram (Table (filter_billing (filter_gender d g) v))
       [(''x'', Text ''Billing Amount''), (''nbins'', Number 10),
        (''title'', Text ''Billing Amount Distribution'')]"
  by (simp add: on_table_def update_billing_def select_gender_table filter_gender_def
      filter_billing_def getitem_def new_def)

lemma on_table_update_admission:
  "on_table (update_admission t c) d =
     Figure (if t = ''line'' then line else bar)
       (Trend (map (\<lambda>(p, n). (period_str p, n)) (groupby_YearMonth_size (filter_condition d c))))
       [(''x'', Text ''YearMonth''), (''y'', Text ''Count''),
        (''title'', Text ''Admission Trends Over Time'')]"
  by (simp add: on_table_def update_admission_def filter_condition_def getitem_def new_def
      data_ref_def)

section \<open>Age distribution\<close>

text \<open>
  C1, as amended: for every gender selection, \<open>update_distribution\<close> keeps exactly the rows
  whose Gender equals the selection when the selection is a non-empty string, and all rows
  when it is null or the empty string; when no row is kept it returns \<^verbatim>\<open>{}\<close>, the
  explicit empty result, and otherwise a histogram of Age with 10 bins, coloured by Gender.
\<close>

theorem update_distribution_selection:
  "on_table (update_distribution selected_gender) data =
     (let rows = (case selected_gender of
                    None \<Rightarrow> data
                  | Some g \<Rightarrow> if g = [] then data else filter (\<lambda>r. Gender r = Some g) data)
      in if rows = [] then Empty_Dict
         else Figure histogram (Table rows)
                [(''x'', Text ''Age''), (''nbins'', Number 10), (''color'', Text ''Gender''),
                 (''title'', Text ''Age Distribution by Gender''),
                 (''color_discrete_sequence'', Texts [''#636efa'', ''#ef553b''])])"
  by (simp add: on_table_update_distribution filter_gender_def truthy_def Let_def
      split: option.split)

text \<open>
  C1 on the scenario of the specification: with a Male row and a Female row, selecting
  Male gives the histogram of exactly the one Male row.
\<close>

theorem update_distribution_male:
  "on_table (update_distribution (Some ''Male'')) [male_row, female_row] =
     Figure histogram (Table [male_row])
       [(''x'', Text ''Age''), (''nbins'', Number 10), (''color'', Text ''Gender''),
        (''title'', Text ''Age Distribution by Gender''),
        (''color_discrete_sequence'', Texts [''#636efa'', ''#ef553b''])]"
  using update_distribution_selection [of "Some ''Male''" "[male_row, female_row]"]
  by (simp add: male_row_def female_row_def)

text \<open>
  C1 as worded (exactly the rows whose Gender equals the selection, for every selection
  that is not null) fails for the empty string: no row of the table has the empty string
  as Gender, yet the callback returns a histogram of the whole table, not \<^verbatim>\<open>{}\<close>.
\<close>

theorem update_distribution_empty_string:
  "filter (\<lambda>r. Gender r = Some '''') [male_row] = [] \<and>
   on_table (update_distribution (Some '''')) [male_row] \<noteq> Empty_Dict \<and>
   frame_of (on_table (update_distribution (Some '''')) [male_row]) = Some (Table [male_row])"
  by (simp add: on_table_update_distribution filter_gender_def truthy_def male_row_def)

section \<open>Billing distribution\<close>

text \<open>
  C2, as amended: for every gender selection and every slider value, the rows that
  \<open>update_billing\<close> keeps are exactly the rows whose Gender equals the selection (any
  Gender when the selection is null or the empty string) and whose Billing Amount is
  present and at most the slider value; the figure is a histogram of Billing Amount with
  10 bins.
\<close>

theorem update_billing_selection:
  "on_table (update_billing selected_gender slider_value) data =
     Figure histogram
       (Table (filter (\<lambda>r. (case selected_gender of
                                None \<Rightarrow> True
                              | Some g \<Rightarrow> g = [] \<or> Gender r = Some g) \<and>
                            (\<exists>v. Billing_Amount r = Val v \<and> v \<le> slider_value)) data))
       [(''x'', Text ''Billing Amount''), (''nbins'', Number 10),
        (''title'', Text ''Billing Amount Distribution'')]"
proof -
  have "le_slider b slider_value \<longleftrightarrow> (\<exists>v. b = Val v \<and> v \<le> slider_value)" for b
    by (cases b) (simp_all add: le_slider_def)
  then show ?thesis
    by (auto simp: on_table_update_billing filter_gender_def filter_billing_def truthy_def
        split: option.split intro!: filter_cong)
qed

text \<open>
  C2 on an example: Male selected and the slider at 150, on a Male row billed 100, a Female
  row billed 200 and a Female row with no Billing Amount.
\<close>

theorem update_billing_male:
  "on_table (update_billing (Some ''Male'') 150) [male_row, female_row, unparsed_row] =
     Figure histogram (Table [male_row])
       [(''x'', Text ''Billing Amount''), (''nbins'', Number 10),
        (''title'', Text ''Billing Amount Distribution'')]"
  using update_billing_selection [of "Some ''Male''" 150 "[male_row, female_row, unparsed_row]"]
  by (simp add: male_row_def female_row_def unparsed_row_def)

text \<open>
  C2 as worded fails for the empty string: no row has the empty string as Gender, yet the
  histogram is built from the row of the table.
\<close>

theorem update_billing_empty_string:
  "filter (\<lambda>r. Gender r = Some '''' \<and> le_slider (Billing_Amount r) 150) [male_row] = [] \<and>
   frame_of (on_table (update_billing (Some '''') 150) [male_row]) = Some (Table [male_row])"
  by (simp add: on_table_update_billing filter_gender_def filter_billing_def truthy_def
      male_row_def le_slider_def)

text \<open>
  \<open>update_billing\<close> has no test for an empty frame: whatever the controls, it returns a
  histogram, never \<^verbatim>\<open>{}\<close>.
\<close>

lemma update_billing_not_empty_dict:
  "on_table (update_billing selected_gender slider_value) data \<noteq> Empty_Dict"
  by (simp add: on_table_update_billing)

text \<open>
  C3: with the slider at 50, below the smallest Billing Amount (100) of the table, no row
  is kept; \<open>update_billing\<close> returns an ordinary histogram of zero rows and not the
  explicit empty result, which \<open>update_distribution\<close> does return when it keeps no row.
\<close>

theorem update_billing_below_minimum:
  "on_table (update_billing None 50) [male_row, female_row] =
     Figure histogram (Table [])
       [(''x'', Text ''Billing Amount''), (''nbins'', Number 10),
        (''title'', Text ''Billing Amount Distribution'')] \<and>
   on_table (update_billing None 50) [male_row, female_row] \<noteq> Empty_Dict \<and>
   on_table (update_distribution (Some ''Other'')) [male_row, female_row] = Empty_Dict"
  by (simp add: on_table_update_billing on_table_update_distribution filter_gender_def
      filter_billing_def truthy_def male_row_def female_row_def le_slider_def)

text \<open>
  C10: a row whose Billing Amount is missing is in the frame of the billing histogram for
  no slider value and no gender selection.
\<close>

theorem missing_billing_excluded:
  assumes "Billing_Amount r = NaN"
    and "frame_of (on_table (update_billing selected_gender slider_value) data) = Some (Table rows)"
  shows "r \<notin> set rows"
  using assms
  by (auto simp: on_table_update_billing filter_billing_def le_slider_def)

text \<open>C10 on an example: the slider at one million leaves the row without Billing Amount out.\<close>

theorem missing_billing_example:
  "Billing_Amount unparsed_row = NaN \<and>
   frame_of (on_table (update_billing None 1000000) [male_row, unparsed_row]) =
     Some (Table [male_row]) \<and>
   unparsed_row \<notin> set [male_row]"
proof -
  have missing: "Billing_Amount unparsed_row = NaN"
    by (simp add: unparsed_row_def)
  have kept: "frame_of (on_table (update_billing None 1000000) [male_row, unparsed_row]) =
      Some (Table [male_row])"
    by (simp add: on_table_update_billing filter_gender_def filter_billing_def truthy_def
        le_slider_def male_row_def unparsed_row_def)
  from missing_billing_excluded [OF missing kept] missing kept show ?thesis
    by simp
qed

section \<open>Composition of the two filters\<close>

text \<open>
  C5: the rows of the billing histogram are the table filtered by gender and then by
  Billing Amount at most the threshold; for every table, every gender selection and every
  threshold, filtering in the other order, by the threshold first and by gender second,
  gives the same rows in the same order.
\<close>

theorem filters_commute:
  "frame_of (on_table (update_billing selected_gender slider_value) data) =
     Some (Table (filter_billing (filter_gender data selected_gender) slider_value)) \<and>
   filter_billing (filter_gender data selected_gender) slider_value =
     filter_gender (filter_billing data slider_value) selected_gender"
  by (auto simp: on_table_update_billing filter_gender_def filter_billing_def intro: filter_cong)

section \<open>Mean of the Billing Amount\<close>

lemma fillna0_Billing: "map fillna0 (map Billing_Amount data) = map amount data"
  by (simp add: fillna0_def amount_def)

lemma count_Billing:
  "length (filter (\<lambda>c. c \<noteq> NaN) (map Billing_Amount data)) =
   length (filter (\<lambda>r. Billing_Amount r \<noteq> NaN) data)"
  by (induction data) simp_all


lemma avg_billing_amount_eq:
  "avg_billing_amount np data =
     (if filter (\<lambda>r. Billing_Amount r \<noteq> NaN) data = [] then Py_nan
      else np_divide np (np_sum np (map amount data))
             (length (filter (\<lambda>r. Billing_Amount r \<noteq> NaN) data)))"
  unfolding avg_billing_amount_def mean_def Let_def fillna0_Billing count_Billing
  by simp

lemma sum_amount_present:
  "sum_list (map amount (filter (\<lambda>r. Billing_Amount r \<noteq> NaN) data)) = sum_list (map amount data)"
  by (induction data) (simp_all add: amount_def)





text \<open>On the table of the scenario the layout comes to exist, with the five marks of the slider.\<close>

lemma app_layout_example:
  "app_layout exact_np [male_row, female_row] =
     Inr \<lparr>records_line = ''Total Records: 2'',
          billing_line = ''Average Biling Amount: 150.00'',
          gender_options = [(Some ''Male'', Some ''Male''), (Some ''Female'', Some ''Female'')],
          billing_slider =
            \<lparr>kw_min = Py_num 100, kw_max = Py_num 200, kw_value = Py_num 150,
             kw_marks = [(100, ''$100''), (125, ''$125''), (150, ''$150''), (175, ''$175''),
                         (200, ''$200'')],
             kw_step = 100\<rparr>,
          condition_options =
            [(Some ''Asthma'', Some ''Asthma''), (Some ''Diabetes'', Some ''Diabetes'')]\<rparr>"
proof -
  have billing: "map Billing_Amount [male_row, female_row] = [Val 100, Val 200]"
    by (simp add: male_row_def female_row_def)
  have quantiles: "quantile exact_np [Val 100, Val 200] [0, 1 / 4, 1 / 2, 3 / 4, 1] =
      [Py_num 100, Py_num 125, Py_num 150, Py_num 175, Py_num 200]"
    by (simp add: quantile_def exact_np_def exact_quantile_def floor_eq_iff)
  have texts: "dollars 100 = ''$100''" "dollars 125 = ''$125''" "dollars 150 = ''$150''"
    "dollars 175 = ''$175''" "dollars 200 = ''$200''"
    by (simp_all add: dollars_def commas.simps digits.simps digit_def)
  have marks: "marks_of [] [Py_num 100, Py_num 125, Py_num 150, Py_num 175, Py_num 200] =
      Inr [(100, ''$100''), (125, ''$125''), (150, ''$150''), (175, ''$175''), (200, ''$200'')]"
    by (simp add: int_py_def texts)
  have slider: "series_min [Val 100, Val 200] = Py_num 100"
    "series_max [Val 100, Val 200] = Py_num 200"
    "median exact_np [Val 100, Val 200] = Py_num 150"
    by (simp_all add: series_min_def series_max_def median_def exact_np_def exact_median_def)
  have mean: "avg_billing_amount exact_np [male_row, female_row] = Py_num 150"
    by (simp add: avg_billing_amount_eq male_row_def female_row_def amount_def exact_np_def)
  have "fixed2 150 = ''150.00''"
    by (simp add: fixed2_def round_half_even_def digits.simps digit_def)
  with mean have line: "billing_text exact_np [male_row, female_row] =
      ''Average Biling Amount: 150.00''"
    by (simp add: billing_text_def format_2f_def)
  have records: "records_text [male_row, female_row] = ''Total Records: 2''"
    by (simp add: records_text_def num_records_def digits.simps digit_def)
  have opts: "options (map Gender [male_row, female_row]) =
      [(Some ''Male'', Some ''Male''), (Some ''Female'', Some ''Female'')]"
    "options (map Medical_Condition [male_row, female_row]) =
      [(Some ''Asthma'', Some ''Asthma''), (Some ''Diabetes'', Some ''Diabetes'')]"
    by (simp_all add: options_def unique_def male_row_def female_row_def)
  show ?thesis
    unfolding app_layout_def Let_def billing quantiles marks slider line records opts
    by simp
qed

section \<open>Admission trends\<close>

lemma set_map_filter: "set (List.map_filter f xs) = {y. \<exists>x\<in>set xs. f x = Some y}"
  by (induction xs) (auto split: option.splits)

lemma groupby_keys:
  "map fst (groupby_YearMonth_size df) = sort (remdups (List.map_filter YearMonth df))"
  by (simp add: groupby_YearMonth_size_def comp_def)

lemma groupby_sorted: "sorted_wrt (<) (map fst (groupby_YearMonth_size df))"
  by (simp add: groupby_keys strict_sorted_iff)

lemma groupby_set:
  "set (map fst (groupby_YearMonth_size df)) = {p. \<exists>r\<in>set df. YearMonth r = Some p}"
  by (simp add: groupby_keys set_map_filter)

lemma groupby_count:
  "(p, n) \<in> set (groupby_YearMonth_size df) \<Longrightarrow>
   n = length (filter (\<lambda>r. YearMonth r = Some p) df)"
  by (auto simp: groupby_YearMonth_size_def)

text \<open>
  C7, as amended: for every condition selection, \<open>update_admission\<close> keeps the rows whose
  Medical Condition equals the selection when the selection is a non-empty string, and all
  rows when it is null or the empty string.  The frame of its chart has one line per
  distinct YearMonth value of the kept rows, each with the number of kept rows of that
  month, in strictly ascending (chronological) order of the month; the chart is a line
  chart when the chart type is \<^verbatim>\<open>line\<close> and a bar chart otherwise.
\<close>

theorem update_admission_buckets:
  "(let rows = (case selected_condition of
                  None \<Rightarrow> data
                | Some c \<Rightarrow>
                    if c = [] then data else filter (\<lambda>r. Medical_Condition r = Some c) data);
        buckets = groupby_YearMonth_size rows;
        fig = on_table (update_admission chart_type selected_condition) data
    in frame_of fig = Some (Trend (map (\<lambda>(p, n). (period_str p, n)) buckets)) \<and>
       chart_of fig = Some (if chart_type = ''line'' then line else bar) \<and>
       set (map fst buckets) = {p. \<exists>r\<in>set rows. YearMonth r = Some p} \<and>
       sorted_wrt (<) (map fst buckets) \<and>
       (\<forall>(p, n)\<in>set buckets. n = length (filter (\<lambda>r. YearMonth r = Some p) rows)))"
proof -
  have "filter_condition data selected_condition =
        (case selected_condition of
           None \<Rightarrow> data
         | Some c \<Rightarrow> if c = [] then data else filter (\<lambda>r. Medical_Condition r = Some c) data)"
    by (simp add: filter_condition_def truthy_def split: option.split)
  then show ?thesis
    using groupby_sorted groupby_set groupby_count
    by (simp add: on_table_update_admission Let_def split_beta)
qed

text \<open>
  C7 on an example: with no condition selected, two rows of March 2024, one of November
  2023 and one without a date give the two buckets 2023-11 (1 row) and 2024-03 (2 rows),
  in that order.
\<close>

theorem update_admission_example:
  "frame_of (on_table (update_admission ''line'' None)
      [male_row, female_row, unparsed_row, male_row]) =
     Some (Trend [(''2023-11'', 1), (''2024-03'', 2)]) \<and>
   chart_of (on_table (update_admission ''line'' None)
      [male_row, female_row, unparsed_row, male_row]) = Some line"
proof -
  have buckets: "groupby_YearMonth_size [male_row, female_row, unparsed_row, male_row] =
      [((2023, 11), 1), ((2024, 3), 2)]"
    by (simp add: groupby_YearMonth_size_def male_row_def female_row_def unparsed_row_def)
  have months: "period_str (2023, 11) = ''2023-11''" "period_str (2024, 3) = ''2024-03''"
    by (simp_all add: period_str_def digit_def)
  from update_admission_buckets [where selected_condition = None and chart_type = "''line''"
      and data = "[male_row, female_row, unparsed_row, male_row]"]
  have "frame_of (on_table (update_admission ''line'' None)
          [male_row, female_row, unparsed_row, male_row]) =
        Some (Trend (map (\<lambda>(p, n). (period_str p, n))
          (groupby_YearMonth_size [male_row, female_row, unparsed_row, male_row])))"
    and "chart_of (on_table (update_admission ''line'' None)
          [male_row, female_row, unparsed_row, male_row]) = Some line"
    by (simp_all add: Let_def)
  then show ?thesis
    by (simp add: buckets months)
qed

text \<open>
  C7 as worded fails for the empty string: no row has the empty string as Medical
  Condition, yet the chart counts the row of the table.
\<close>

theorem update_admission_empty_string:
  "filter (\<lambda>r. Medical_Condition r = Some '''') [male_row] = [] \<and>
   frame_of (on_table (update_admission ''line'' (Some '''')) [male_row]) =
     Some (Trend [(''2024-03'', 1)])"
  by (simp add: on_table_update_admission filter_condition_def truthy_def
      groupby_YearMonth_size_def male_row_def period_str_def digit_def)

section \<open>Coercion on loading\<close>

lemma numeric_cells_Coerce:
  "numeric_cells read Coerce ss =
     Inr (map (\<lambda>s. case read s of None \<Rightarrow> NaN | Some v \<Rightarrow> Val v) ss)"
  by (induction ss) (simp_all split: option.split)

lemma datetime_cells_Coerce: "datetime_cells read Coerce ss = Inr (map read ss)"
  by (induction ss) (simp_all split: option.split)

text \<open>With \<^verbatim>\<open>errors='raise'\<close> the same cell would raise.\<close>

lemma to_numeric_Raise:
  "number_of (s # ss) s = None \<Longrightarrow> to_numeric number_of Raise (s # ss) = Inl ValueError"
  by (simp add: to_numeric_def)

lemma zip_columns:
  "map (\<lambda>(c, b, d). h c b d) (zip xs (zip (map f xs) (map g xs))) =
   map (\<lambda>x. h x (f x) (g x)) xs"
  by (induction xs) simp_all

lemma load_data_rows:
  "load_data number_of datetime_of csv =
     Inr (map (\<lambda>c. assemble c
                     (case number_of (map csv_Billing_Amount csv) (csv_Billing_Amount c) of
                        None \<Rightarrow> NaN
                      | Some v \<Rightarrow> Val v)
                     (datetime_of (map csv_Date_of_Admission csv) (csv_Date_of_Admission c))
                     (to_period_M
                        (datetime_of (map csv_Date_of_Admission csv) (csv_Date_of_Admission c))))
            csv)"
  by (simp add: load_data_def to_numeric_def to_datetime_def numeric_cells_Coerce
      datetime_cells_Coerce zip_columns comp_def)

lemma filter_billing_present:
  "filter_billing (filter_gender (filter (\<lambda>r. Billing_Amount r \<noteq> NaN) data) g) v =
   filter_billing (filter_gender data g) v"
  by (auto simp: filter_billing_def filter_gender_def le_slider_def intro!: filter_cong
      split: float64.splits)

lemma map_filter_present:
  "List.map_filter f (filter (\<lambda>x. f x \<noteq> None) xs) = List.map_filter f xs"
  by (induction xs) (auto split: option.splits)

lemma groupby_present:
  "groupby_YearMonth_size (filter (\<lambda>r. YearMonth r \<noteq> None) df) = groupby_YearMonth_size df"
proof -
  have "filter (\<lambda>r. YearMonth r = Some k) (filter (\<lambda>r. YearMonth r \<noteq> None) df) =
        filter (\<lambda>r. YearMonth r = Some k) df" for k
    by (auto intro!: filter_cong)
  then show ?thesis
    unfolding groupby_YearMonth_size_def map_filter_present by (simp only:)
qed

lemma filter_condition_present:
  "filter_condition (filter P data) c = filter P (filter_condition data c)"
  by (auto simp: filter_condition_def intro!: filter_cong)

text \<open>
  C8: for every file, \<open>load_data\<close> returns a table and raises nothing.  Row by row, the
  Billing Amount is the number read in its cell, and NaN when none is read; the Date of
  Admission is the date read in its cell, and missing when none is read; YearMonth is the
  year and the month of that date, and missing when the date is.  The rows with such
  missing values are left out of the aggregations without an error: a missing Billing
  Amount adds 0 to the sum of the mean and is not counted in its divisor, and the
  histogram of Billing Amount and the admission trend are what they are on the table
  without those rows.
\<close>

theorem load_data_coerces:
  "load_data number_of datetime_of csv =
     Inr (map (\<lambda>c. \<lparr>Age = csv_Age c, Gender = csv_Gender c,
                     Medical_Condition = csv_Medical_Condition c,
                     Insurance_Provider = csv_Insurance_Provider c,
                     Billing_Amount =
                       (case number_of (map csv_Billing_Amount csv) (csv_Billing_Amount c) of
                          None \<Rightarrow> NaN
                        | Some v \<Rightarrow> Val v),
                     Date_of_Admission =
                       datetime_of (map csv_Date_of_Admission csv) (csv_Date_of_Admission c),
                     YearMonth =
                       (case datetime_of (map csv_Date_of_Admission csv) (csv_Date_of_Admission c) of
                          None \<Rightarrow> None
                        | Some (y, m, d) \<Rightarrow> Some (y, m))\<rparr>) csv) \<and>
   avg_billing_amount np data =
     (if filter (\<lambda>r. Billing_Amount r \<noteq> NaN) data = [] then Py_nan
      else np_divide np
             (np_sum np (map (\<lambda>r. case Billing_Amount r of NaN \<Rightarrow> 0 | Val v \<Rightarrow> v) data))
             (length (filter (\<lambda>r. Billing_Amount r \<noteq> NaN) data))) \<and>
   on_table (update_billing selected_gender slider_value) data =
     on_table (update_billing selected_gender slider_value)
       (filter (\<lambda>r. Billing_Amount r \<noteq> NaN) data) \<and>
   on_table (update_admission chart_type selected_condition) data =
     on_table (update_admission chart_type selected_condition)
       (filter (\<lambda>r. YearMonth r \<noteq> None) data)"
  by (simp add: load_data_rows assemble_def to_period_M_def avg_billing_amount_eq
      amount_def [abs_def] on_table_update_billing filter_billing_present
      on_table_update_admission filter_condition_present groupby_present del: not_None_eq)

text \<open>
  C8 on an example: a file of three rows, the second with the Billing Amount \<^verbatim>\<open>n/a\<close>
  and the Date of Admission \<^verbatim>\<open>soon\<close>, the third with a date in another format than the
  first cell of the column.  It loads as the Male row, the row with the missing markers,
  and a row whose date and month are missing; the mean is the one amount that is present
  out of the first two rows.
\<close>

theorem load_data_example:
  "load_data example_number example_date
     [\<lparr>csv_Age = 40, csv_Gender = Some ''Male'', csv_Medical_Condition = Some ''Asthma'',
       csv_Insurance_Provider = Some ''Aetna'', csv_Billing_Amount = ''100'',
       csv_Date_of_Admission = ''2024-03-15''\<rparr>,
      \<lparr>csv_Age = 61, csv_Gender = Some ''Female'', csv_Medical_Condition = Some ''Asthma'',
       csv_Insurance_Provider = Some ''Aetna'', csv_Billing_Amount = ''n/a'',
       csv_Date_of_Admission = ''soon''\<rparr>,
      \<lparr>csv_Age = 35, csv_Gender = Some ''Female'', csv_Medical_Condition = Some ''Diabetes'',
       csv_Insurance_Provider = Some ''Cigna'', csv_Billing_Amount = ''200'',
       csv_Date_of_Admission = ''15/03/2024''\<rparr>] =
   Inr [male_row, unparsed_row,
        female_row\<lparr>Date_of_Admission := None, YearMonth := None\<rparr>] \<and>
   avg_billing_amount exact_np [male_row, unparsed_row] = Py_num 100"
  using load_data_coerces [where number_of = example_number and datetime_of = example_date
      and np = exact_np and data = "[male_row, unparsed_row]"]
  by (simp add: example_number_def example_date_def example_format_def male_row_def
      unparsed_row_def female_row_def exact_np_def)

section \<open>Selections that Python takes as false\<close>

text \<open>
  C9: every callback that takes the gender or the condition selection does, for a selection
  that is false in Python (null or the empty string), exactly what it does for null, on
  every store.  In particular no filter is applied: on the loaded table the frame of the
  chart is built from the whole table (from the rows within the slider value for the
  billing histogram, from the month counts of all rows for the trend), not from the rows
  whose Gender or Medical Condition is the empty string.
\<close>

theorem falsy_selection_unselected:
  assumes "\<not> truthy v"
  shows "update_distribution v h = update_distribution None h \<and>
         update_medical_condition v h = update_medical_condition None h \<and>
         update_insurance Set1 v h = update_insurance Set1 None h \<and>
         update_billing v x h = update_billing None x h \<and>
         update_admission t v h = update_admission t None h \<and>
         frame_of (on_table (update_distribution v) data) =
           (if data = [] then None else Some (Table data)) \<and>
         frame_of (on_table (update_medical_condition v) data) = Some (Table data) \<and>
         frame_of (on_table (update_insurance Set1 v) data) = Some (Table data) \<and>
         frame_of (on_table (update_billing v x) data) = Some (Table (filter_billing data x)) \<and>
         frame_of (on_table (update_admission t v) data) =
           Some (Trend (map (\<lambda>(p, n). (period_str p, n)) (groupby_YearMonth_size data)))"
  using assms
  by (simp add: update_distribution_def update_medical_condition_def update_insurance_def
      update_billing_def update_admission_def select_gender_def truthy_def
      on_table_update_distribution on_table_update_medical_condition on_table_update_insurance
      on_table_update_billing on_table_update_admission filter_gender_def filter_condition_def)

text \<open>
  C9 on the empty string: it is false, \<open>update_billing\<close> does with it what it does with
  null, and the pie chart of the conditions is built from both rows of the table.
\<close>

theorem falsy_selection_example:
  "\<not> truthy (Some '''') \<and>
   update_billing (Some '''') 150 [Table [male_row, female_row]] =
     update_billing None 150 [Table [male_row, female_row]] \<and>
   frame_of (on_table (update_medical_condition (Some '''')) [male_row, female_row]) =
     Some (Table [male_row, female_row])"
proof -
  have "\<not> truthy (Some '''')"
    by (simp add: truthy_def)
  from this falsy_selection_unselected [OF this] show ?thesis
    by simp
qed

section \<open>Repeated invocations\<close>

lemma select_gender_store:
  assumes "h \<noteq> []" "h ! data_ref = Table d"
  shows "select_gender g h =
           (if truthy g then (length h, h @ [Table (filter (\<lambda>r. Gender r = g) d)])
            else (data_ref, h))"
  using assms by (simp add: select_gender_def getitem_def new_def)

lemma on_table_invoke:
  "on_table (invoke Set1 (Age_distribution g)) d = on_table (update_distribution g) d"
  "on_table (invoke Set1 (Condition_distribution g)) d = on_table (update_medical_condition g) d"
  "on_table (invoke Set1 (Insurance_comparison g)) d = on_table (update_insurance Set1 g) d"
  "on_table (invoke Set1 (Billing_distribution g v)) d = on_table (update_billing g v) d"
  "on_table (invoke Set1 (Admission_trends t c)) d = on_table (update_admission t c) d"
  by (simp_all add: on_table_def)

text \<open>
  Whatever else the store holds, the figure is the one computed from the table alone, and
  the objects that were in the store are still there, unchanged: a callback only adds
  objects of its own, and the one it changes in place (\<^verbatim>\<open>trend_df\<close>) is one of those.
\<close>

lemma invoke_store:
  assumes "h \<noteq> []" "h ! data_ref = Table d"
  shows "fst (invoke Set1 call h) = on_table (invoke Set1 call) d \<and>
         take (length h) (snd (invoke Set1 call h)) = h"
proof (cases call)
  case (Age_distribution g)
  then show ?thesis
    using assms
    by (simp add: on_table_invoke on_table_update_distribution update_distribution_def
        select_gender_store filter_gender_def)
next
  case (Condition_distribution g)
  then show ?thesis
    using assms
    by (simp add: on_table_invoke on_table_update_medical_condition
        update_medical_condition_def select_gender_store filter_gender_def)
next
  case (Insurance_comparison g)
  then show ?thesis
    using assms
    by (simp add: on_table_invoke on_table_update_insurance update_insurance_def
        select_gender_store filter_gender_def)
next
  case (Billing_distribution g v)
  then show ?thesis
    using assms
    by (simp add: on_table_invoke on_table_update_billing update_billing_def
        select_gender_store filter_gender_def filter_billing_def getitem_def new_def nth_append)
next
  case (Admission_trends t c)
  then show ?thesis
    using assms
    by (simp add: on_table_invoke on_table_update_admission update_admission_def
        filter_condition_def getitem_def new_def nth_append)
qed

text \<open>
  C6: every callback is deterministic.  On any store whose object 0 is the table, an
  invocation returns the figure that is a function of the table and the control values
  alone, it leaves every object that was in the store, the table first, as it was, and
  the same invocation on the store it leaves returns the identical figure.
\<close>

theorem invocation_repeatable:
  assumes "h \<noteq> []" and "h ! data_ref = Table data" and "invoke Set1 call h = (fig, h')"
  shows "fig = on_table (invoke Set1 call) data \<and> take (length h) h' = h \<and>
         fst (invoke Set1 call h') = fig"
proof -
  from invoke_store [OF assms(1,2), of Set1 call] assms(3)
  have fig: "fig = on_table (invoke Set1 call) data" and kept: "take (length h) h' = h"
    by simp_all
  from assms(1) have "0 < length h"
    by simp
  from kept assms(1) have "h' \<noteq> []"
    by auto
  moreover have "h' ! data_ref = h ! data_ref"
    using nth_take [of data_ref "length h" h'] kept \<open>0 < length h\<close>
    by (simp add: data_ref_def)
  ultimately have "fst (invoke Set1 call h') = on_table (invoke Set1 call) data"
    using invoke_store [of h' data Set1 call] assms(2) by simp
  with fig kept show ?thesis
    by simp
qed

text \<open>
  C6 on an example: the trend of the Asthma rows, invoked on the store that holds the
  table alone, leaves two objects of its own behind; invoked again on that store it
  returns the same figure.  (The palette of the insurance chart plays no part here and is
  left empty.)
\<close>

theorem invocation_repeatable_example:
  "invoke [] (Admission_trends ''line'' (Some ''Asthma'')) [Table [male_row, female_row]] =
     (Figure line (Trend [(''2024-03'', 1)])
        [(''x'', Text ''YearMonth''), (''y'', Text ''Count''),
         (''title'', Text ''Admission Trends Over Time'')],
      [Table [male_row, female_row], Table [male_row], Trend [(''2024-03'', 1)]]) \<and>
   fst (invoke [] (Admission_trends ''line'' (Some ''Asthma''))
         [Table [male_row, female_row], Table [male_row], Trend [(''2024-03'', 1)]]) =
     Figure line (Trend [(''2024-03'', 1)])
        [(''x'', Text ''YearMonth''), (''y'', Text ''Count''),
         (''title'', Text ''Admission Trends Over Time'')]"
proof -
  have run: "invoke [] (Admission_trends ''line'' (Some ''Asthma''))
      [Table [male_row, female_row]] =
     (Figure line (Trend [(''2024-03'', 1)])
        [(''x'', Text ''YearMonth''), (''y'', Text ''Count''),
         (''title'', Text ''Admission Trends Over Time'')],
      [Table [male_row, female_row], Table [male_row], Trend [(''2024-03'', 1)]])"
    by (simp add: update_admission_def truthy_def getitem_def new_def data_ref_def
        groupby_YearMonth_size_def male_row_def female_row_def period_str_def digit_def)
  have "[Table [male_row, female_row]] \<noteq> []"
    and "[Table [male_row, female_row]] ! data_ref = Table [male_row, female_row]"
    by (simp_all add: data_ref_def)
  from invocation_repeatable [OF this run] run show ?thesis
    by simp
qed

end
